theory Spec2Isabelle
  imports Main "HOL-Library.Word" "HOL-Library.Product_Lexorder" "HOL-Library.Code_Target_Nat"
begin

section \<open>The memory manager of MemoryManager.cpp\<close>

text \<open>
  The class \<open>MemoryManager\<close> keeps a byte buffer \<open>memory\<close>, the vectors \<open>holes\<close> and
  \<open>partitions\<close> of pairs of \<open>unsigned\<close>, the vector \<open>bitmap\<close> of \<open>int\<close>, the word size,
  \<open>memSize\<close> and the allocator function. The bytes of \<open>memory\<close> are never read or written
  by the class, so the buffer is represented by its size. An \<open>unsigned\<close> is a 32-bit word,
  a \<open>uint16_t\<close> a 16-bit word, an \<open>int\<close> is an integer (the values stay far from the limits
  of 32 bits in every function below), and a \<open>size_t\<close> is a natural number: \<open>memSize\<close> is
  at most 65535 after \<open>initialize\<close> and \<open>wordSize\<close> below \<open>2^32\<close>, so their product does not
  wrap in 64 bits.
\<close>

type_synonym u32 = "32 word"
type_synonym u16 = "16 word"

text \<open>
  A \<open>void*\<close> handed out by or given to the manager: the null pointer, or the address
  \<open>&memory[k]\<close> of the byte at index \<open>k\<close> of the buffer. An address outside the buffer
  compares unequal to every \<open>&memory[i]\<close>, as the null pointer does.
\<close>

datatype pointer = nullptr | MemoryAt nat

text \<open>What the C++ leaves undefined or does not survive.\<close>

datatype fault = DivisionByZero | OutOfBounds | NoReturn

record manager =
  memory_size :: nat
  holes :: "(u32 \<times> u32) list"
  partitions :: "(u32 \<times> u32) list"
  bitmap :: "int list"
  wordSize :: u32
  memSize :: nat
  allocator :: "int \<Rightarrow> u16 list \<Rightarrow> int option"

text \<open>
  The constructor sets the word size and the allocator; the vectors start empty and
  \<open>memSize\<close> is not initialised, so its first value is a parameter.
\<close>

definition MemoryManager :: "u32 \<Rightarrow> (int \<Rightarrow> u16 list \<Rightarrow> int option) \<Rightarrow> nat \<Rightarrow> manager" where
  "MemoryManager ws alloc junk =
     \<lparr>memory_size = 0, holes = [], partitions = [], bitmap = [],
      wordSize = ws, memSize = junk, allocator = alloc\<rparr>"

definition shutdown :: "manager \<Rightarrow> manager" where
  "shutdown s = s\<lparr>memory_size := 0, holes := [], partitions := [], bitmap := []\<rparr>"

definition initialize :: "manager \<Rightarrow> nat \<Rightarrow> manager" where
  "initialize s sizeInWords =
     (let s1 = shutdown s;
          ms = (if sizeInWords > 65535 then 65535 else sizeInWords);
          bitmapSize = (if ms mod 8 = 0 then ms else ms + 8 - (ms mod 8))
      in s1\<lparr>memSize := ms,
             memory_size := ms * unat (wordSize s1),
             holes := holes s1 @ [(0, of_nat ms)],
             bitmap := replicate bitmapSize 0\<rparr>)"

definition setAllocator :: "manager \<Rightarrow> (int \<Rightarrow> u16 list \<Rightarrow> int option) \<Rightarrow> manager" where
  "setAllocator s alloc = s\<lparr>allocator := alloc\<rparr>"

subsection \<open>The exported hole list and bitmap\<close>

text \<open>
  \<open>getList\<close> returns the null pointer (\<open>None\<close>) on an empty buffer, and otherwise a fresh
  array of \<open>uint16_t\<close>: the number of holes, then offset and length of each hole, every
  value cut to 16 bits by the assignment.
\<close>

definition getList :: "manager \<Rightarrow> u16 list option" where
  "getList s =
     (if memory_size s = 0 then None
      else Some ((of_nat (length (holes s)) :: u16)
                 # concat (map (\<lambda>h. [ucast (fst h), ucast (snd h)]) (holes s))))"

text \<open>
  One byte of the exported bitmap: \<open>byte |= bitmap[i+j] << j\<close> for \<open>j\<close> from 7 down to 0,
  cut to 8 bits.
\<close>

definition pack_byte :: "int list \<Rightarrow> nat \<Rightarrow> 8 word" where
  "pack_byte bm i =
     ucast (fold (\<lambda>j byte. or byte (push_bit j (word_of_int (bm ! (i + j)) :: u32)))
                 [7, 6, 5, 4, 3, 2, 1, 0] (0 :: u32))"

function getBitmap_loop :: "int list \<Rightarrow> nat \<Rightarrow> 8 word list option" where
  "getBitmap_loop bm i =
     (if i < length bm then
        (if i + 7 < length bm then
           (case getBitmap_loop bm (i + 8) of
              None \<Rightarrow> None
            | Some bytes \<Rightarrow> Some (pack_byte bm i # bytes))
         else None)
      else Some [])"
  by pat_completeness auto
termination
  by (relation "measure (\<lambda>(bm, i). length bm - i)") auto

declare getBitmap_loop.simps [simp del]

text \<open>
  \<open>getBitmap\<close> returns the null pointer (the outer \<open>None\<close>) on an empty buffer, and
  otherwise the size of the bitmap in bytes as two bytes, low byte first, and the packed
  bytes. The inner \<open>None\<close> stands for a read past the end of \<open>bitmap\<close>, which happens
  only when its size is not a multiple of 8.
\<close>

definition getBitmap :: "manager \<Rightarrow> 8 word list option option" where
  "getBitmap s =
     (if memory_size s = 0 then None
      else Some (let size = (of_nat (length (bitmap s) div 8) :: u16)
                 in (case getBitmap_loop (bitmap s) 0 of
                       None \<Rightarrow> None
                     | Some bytes \<Rightarrow> Some (ucast size # ucast (drop_bit 8 size) # bytes))))"

definition getWordSize :: "manager \<Rightarrow> u32" where
  "getWordSize s = wordSize s"

definition getMemoryLimit :: "manager \<Rightarrow> u32" where
  "getMemoryLimit s = of_nat (memory_size s)"

subsection \<open>The placement strategy bestFit\<close>

text \<open>
  \<open>bestFit\<close> reads the array through indices; a read past the end of the array is
  undefined in C++ and \<open>None\<close> here. The loop counter starts at 1 and only grows, so it is
  a natural number.
\<close>

function bestFit_loop :: "int \<Rightarrow> u16 list \<Rightarrow> nat \<Rightarrow> nat \<Rightarrow> int \<times> int \<Rightarrow> int option" where
  "bestFit_loop sizeInWords hs bound i bestFitHole =
     (if i < bound then
        (if i + 1 < length hs then
           (if uint (hs ! (i + 1)) < snd bestFitHole \<and> uint (hs ! (i + 1)) \<ge> sizeInWords
            then bestFit_loop sizeInWords hs bound (i + 2) (uint (hs ! i), uint (hs ! (i + 1)))
            else bestFit_loop sizeInWords hs bound (i + 2) bestFitHole)
         else None)
      else Some (fst bestFitHole))"
  by pat_completeness auto
termination
  by (relation "measure (\<lambda>(sz, hs, bound, i, b). bound - i)") auto

declare bestFit_loop.simps [simp del]

definition bestFit :: "int \<Rightarrow> u16 list \<Rightarrow> int option" where
  "bestFit sizeInWords list =
     (case list of
        [] \<Rightarrow> None
      | holeListlength # _ \<Rightarrow>
          bestFit_loop sizeInWords list (unat holeListlength * 2) 1 (-1, 65536))"

subsection \<open>allocate\<close>

text \<open>
  \<open>fill(first, first + n, x)\<close> on a vector; writing past the end is undefined.
  \<open>erase(begin() + i)\<close> needs \<open>i\<close> below the size.
\<close>

definition fill :: "int list \<Rightarrow> nat \<Rightarrow> nat \<Rightarrow> int \<Rightarrow> int list option" where
  "fill v start n x =
     (if start + n \<le> length v
      then Some (take start v @ replicate n x @ drop (start + n) v)
      else None)"

definition erase :: "'a list \<Rightarrow> nat \<Rightarrow> 'a list option" where
  "erase v i = (if i < length v then Some (take i v @ drop (Suc i) v) else None)"

text \<open>The index of the first hole whose offset is the selected one; 0 when there is none.\<close>

fun find_hole :: "(u32 \<times> u32) list \<Rightarrow> nat \<Rightarrow> u32 \<Rightarrow> nat" where
  "find_hole [] i holeSelected = 0"
| "find_hole (h # hs) i holeSelected =
     (if fst h = holeSelected then i else find_hole hs (Suc i) holeSelected)"

text \<open>
  \<open>allocate\<close> returns the pointer and the new state. \<open>sizeInBytes\<close> is a \<open>size_t\<close>, so the
  test \<open>sizeInBytes < 0\<close> of the source never holds. The quotient \<open>sizeInBytes/wordSize\<close>
  is a division of unsigned integers, and \<open>ceil\<close> of the resulting whole number is that
  number.
\<close>

definition allocate :: "manager \<Rightarrow> nat \<Rightarrow> fault + (pointer \<times> manager)" where
  "allocate s sizeInBytes =
     (if sizeInBytes > memSize s * unat (wordSize s) \<or> sizeInBytes < 0 \<or> memory_size s = 0
      then Inr (nullptr, s)
      else if wordSize s = 0 then Inl DivisionByZero
      else
        let words = (of_nat (sizeInBytes div unat (wordSize s)) :: u32) in
        (case getList s of
           None \<Rightarrow> Inl OutOfBounds
         | Some list \<Rightarrow>
            (case allocator s (sint words) list of
               None \<Rightarrow> Inl OutOfBounds
             | Some holeSelected \<Rightarrow>
                 if holeSelected = -1 then Inr (nullptr, s)
                 else
                   let sel = (word_of_int holeSelected :: u32);
                       index = find_hole (holes s) 0 sel
                   in if index \<ge> length (holes s) then Inl OutOfBounds
                      else
                        let holes' =
                              (if snd (holes s ! index) = words
                               then take index (holes s) @ drop (Suc index) (holes s)
                               else (holes s)[index := (sel + words, snd (holes s ! index) - words)]);
                            partitions' = sort (partitions s @ [(sel, words)])
                        in if holeSelected < 0 then Inl OutOfBounds
                           else (case fill (bitmap s) (nat holeSelected) (unat words) 1 of
                                   None \<Rightarrow> Inl OutOfBounds
                                 | Some bitmap' \<Rightarrow>
                                     Inr (MemoryAt (unat (sel * wordSize s)),
                                          s\<lparr>holes := holes', partitions := partitions',
                                            bitmap := bitmap'\<rparr>)))))"

subsection \<open>free\<close>

text \<open>
  The first loop of \<open>free\<close> walks the buffer in steps of \<open>wordSize\<close> with an \<open>unsigned\<close>
  counter and remembers the word offset of the byte whose address is the argument. With
  a word size of 0, or a buffer of \<open>2^32\<close> bytes or more, it does not end: the result is
  \<open>None\<close> then.
\<close>

partial_function (option) free_scan :: "nat \<Rightarrow> u32 \<Rightarrow> pointer \<Rightarrow> u32 \<Rightarrow> u32 \<Rightarrow> u32 option" where
  "free_scan msize ws address i wordOffset =
     (if unat i < msize
      then free_scan msize ws address (i + ws)
             (if MemoryAt (unat i) = address then i div ws else wordOffset)
      else Some wordOffset)"

declare free_scan.simps [code]

text \<open>
  The second loop removes the first partition that starts at the offset and gives its
  length; the length stays 0 and the partitions unchanged when there is none.
\<close>

fun remove_partition :: "(u32 \<times> u32) list \<Rightarrow> u32 \<Rightarrow> u32 \<times> (u32 \<times> u32) list" where
  "remove_partition [] wordOffset = (0, [])"
| "remove_partition (p # ps) wordOffset =
     (if fst p = wordOffset then (snd p, ps)
      else (let (len, ps') = remove_partition ps wordOffset in (len, p # ps')))"

text \<open>
  The third loop goes through the holes with the candidate \<open>combine\<close> and the two indices
  \<open>erase[0]\<close> and \<open>erase[1]\<close> (\<open>-1\<close> when unset); it stops at the first hole that starts at
  the end of the candidate.
\<close>

fun coalesce :: "(u32 \<times> u32) list \<Rightarrow> nat \<Rightarrow> u32 \<Rightarrow> u32 \<Rightarrow> (u32 \<times> u32) \<times> int \<times> int
    \<Rightarrow> (u32 \<times> u32) \<times> int \<times> int" where
  "coalesce [] i wordOffset len acc = acc"
| "coalesce (h # hs) i wordOffset len (combine, erase0, erase1) =
     (let (combine1, erase0') =
            (if fst h + snd h = wordOffset then ((fst h, snd h + len), int i)
             else (combine, erase0))
      in if fst h = fst combine1 + snd combine1
         then ((fst combine1, snd combine1 + snd h), erase0', int i)
         else coalesce hs (Suc i) wordOffset len (combine1, erase0', erase1))"

definition free :: "manager \<Rightarrow> pointer \<Rightarrow> fault + manager" where
  "free s address =
     (case free_scan (memory_size s) (wordSize s) address 0 0 of
        None \<Rightarrow> Inl NoReturn
      | Some wordOffset \<Rightarrow>
          let (len, partitions') = remove_partition (partitions s) wordOffset;
              (combine, erase0, erase1) =
                 coalesce (holes s) 0 wordOffset len ((wordOffset, len), -1, -1)
          in (case (if erase0 \<noteq> -1 then erase (holes s) (nat erase0) else Some (holes s)) of
                None \<Rightarrow> Inl OutOfBounds
              | Some holes1 \<Rightarrow>
                 (case (if erase1 \<noteq> -1 then erase holes1 (nat erase1) else Some holes1) of
                    None \<Rightarrow> Inl OutOfBounds
                  | Some holes2 \<Rightarrow>
                     (case fill (bitmap s) (unat wordOffset) (unat len) 0 of
                        None \<Rightarrow> Inl OutOfBounds
                      | Some bitmap' \<Rightarrow>
                          Inr (s\<lparr>holes := sort (holes2 @ [combine]),
                                 partitions := partitions',
                                 bitmap := bitmap'\<rparr>)))))"

subsection \<open>dumpMemoryMap\<close>

text \<open>\<open>std::to_string\<close> of an unsigned number: its decimal digits.\<close>

definition digit :: "nat \<Rightarrow> char" where
  "digit d = ''0123456789'' ! d"

fun to_string :: "nat \<Rightarrow> string" where
  "to_string n = (if n < 10 then [digit n] else to_string (n div 10) @ [digit (n mod 10)])"

declare to_string.simps [simp del]

text \<open>
  One piece handed to \<open>write\<close>: \<open>"[" + to_string(first) + ", " + to_string(second)\<close>
  and the closing text, which is \<open>"] - "\<close> inside the loop and \<open>"]"\<close> for the last hole.
\<close>

definition hole_piece :: "u32 \<times> u32 \<Rightarrow> string \<Rightarrow> string" where
  "hole_piece h closing =
     ''['' @ to_string (unat (fst h)) @ '', '' @ to_string (unat (snd h)) @ closing"

text \<open>
  \<open>dumpMemoryMap\<close> takes the result \<open>fd\<close> of \<open>open\<close> as a parameter and returns its own
  result together with the bytes it hands to \<open>write\<close>, in order: the loop runs over the
  indices below \<open>holes.size() - 1\<close>, the last hole is written after it. The results of
  \<open>write\<close> are not looked at by the source.
\<close>

definition dumpMemoryMap :: "manager \<Rightarrow> int \<Rightarrow> int \<times> string" where
  "dumpMemoryMap s fd =
     (if memory_size s = 0 then (-1, [])
      else if fd = -1 then (-1, [])
      else if length (holes s) = 0 then (0, ''[0, 0]'')
      else (0, concat (map (\<lambda>h. hole_piece h ''] - '') (take (length (holes s) - 1) (holes s)))
               @ hole_piece (holes s ! (length (holes s) - 1)) '']''))"

subsection \<open>Sequences of calls\<close>

text \<open>
  A client that calls \<open>allocate\<close> and \<open>free\<close>, keeping the pointers it was given:
  \<open>FreeReturned k\<close> frees the pointer returned by the \<open>k\<close>-th call of \<open>allocate\<close>
  (counted from 0).
\<close>

datatype call = Allocate nat | FreeReturned nat

fun run :: "manager \<Rightarrow> pointer list \<Rightarrow> call list \<Rightarrow> fault + (manager \<times> pointer list)" where
  "run s ps [] = Inr (s, ps)"
| "run s ps (Allocate n # cs) =
     (case allocate s n of
        Inl e \<Rightarrow> Inl e
      | Inr (p, s') \<Rightarrow> run s' (ps @ [p]) cs)"
| "run s ps (FreeReturned k # cs) =
     (if k < length ps
      then (case free s (ps ! k) of Inl e \<Rightarrow> Inl e | Inr s' \<Rightarrow> run s' ps cs)
      else Inl OutOfBounds)"

section \<open>Properties of the layout\<close>

text \<open>
  What a client can observe after a sequence of calls: the holes, the partitions, the
  bitmap and the pointers it was given, or the fault that stopped the sequence.
\<close>

definition outcome :: "fault + (manager \<times> pointer list)
    \<Rightarrow> fault + ((u32 \<times> u32) list \<times> (u32 \<times> u32) list \<times> int list \<times> pointer list)" where
  "outcome r = (case r of Inl e \<Rightarrow> Inl e
                | Inr (s, ps) \<Rightarrow> Inr (holes s, partitions s, bitmap s, ps))"

text \<open>Word \<open>i\<close> lies inside the extent \<open>(start, length)\<close>.\<close>

definition inside :: "u32 \<times> u32 \<Rightarrow> nat \<Rightarrow> bool" where
  "inside e i = (unat (fst e) \<le> i \<and> i < unat (fst e) + unat (snd e))"

text \<open>
  Holes and partitions tile \<open>[0, wordCount)\<close>: every word lies inside exactly one extent.
\<close>

definition tiles :: "nat \<Rightarrow> (u32 \<times> u32) list \<Rightarrow> (u32 \<times> u32) list \<Rightarrow> bool" where
  "tiles wordCount hs ps =
     list_all (\<lambda>i. length (filter (\<lambda>e. inside e i) (hs @ ps)) = 1) [0..<wordCount]"

text \<open>
  The bitmap is the characteristic function of the partitions on the words of the pool,
  and 0 on the padding.
\<close>

definition bitmap_faithful :: "nat \<Rightarrow> (u32 \<times> u32) list \<Rightarrow> int list \<Rightarrow> bool" where
  "bitmap_faithful wordCount ps bm =
     (wordCount \<le> length bm
      \<and> list_all (\<lambda>i. (bm ! i = 1) = list_ex (\<lambda>p. inside p i) ps) [0..<wordCount]
      \<and> list_all (\<lambda>i. bm ! i = 0) [wordCount..<length bm])"

text \<open>Two different holes of the list with \<open>start_i + length_i = start_j\<close>.\<close>

definition adjacent_holes :: "(u32 \<times> u32) list \<Rightarrow> bool" where
  "adjacent_holes hs =
     list_ex (\<lambda>i. list_ex (\<lambda>j. i \<noteq> j \<and> fst (hs ! i) + snd (hs ! i) = fst (hs ! j)) [0..<length hs])
       [0..<length hs]"

text \<open>
  The number of words the specification asks for: \<open>sizeInBytes / wordSize\<close> rounded up.
\<close>

definition words_needed :: "nat \<Rightarrow> nat \<Rightarrow> nat" where
  "words_needed sizeInBytes ws = (sizeInBytes + ws - 1) div ws"

text \<open>
  The array format of the hole list: the count, then offset and length of every hole.
\<close>

definition encode_holes :: "(u16 \<times> u16) list \<Rightarrow> u16 list" where
  "encode_holes hs = of_nat (length hs) # concat (map (\<lambda>h. [fst h, snd h]) hs)"

text \<open>
  A hole fits a request when its length is at least the requested number of words. Hole
  \<open>k\<close> is the first smallest fitting hole when it fits, no fitting hole is shorter, and
  every fitting hole before it in the list is strictly longer. It has the lowest start
  among the ties when no fitting hole of the same length starts below it.
\<close>

definition fits :: "int \<Rightarrow> u16 \<times> u16 \<Rightarrow> bool" where
  "fits sizeInWords h = (sizeInWords \<le> uint (snd h))"

definition first_smallest :: "int \<Rightarrow> (u16 \<times> u16) list \<Rightarrow> nat \<Rightarrow> bool" where
  "first_smallest sizeInWords hs k =
     (k < length hs \<and> fits sizeInWords (hs ! k)
      \<and> list_all (\<lambda>j. fits sizeInWords (hs ! j) \<longrightarrow> snd (hs ! k) \<le> snd (hs ! j)) [0..<length hs]
      \<and> list_all (\<lambda>j. fits sizeInWords (hs ! j) \<longrightarrow> snd (hs ! k) < snd (hs ! j)) [0..<k])"

definition lowest_start :: "int \<Rightarrow> (u16 \<times> u16) list \<Rightarrow> nat \<Rightarrow> bool" where
  "lowest_start sizeInWords hs k =
     list_all (\<lambda>j. fits sizeInWords (hs ! j) \<and> snd (hs ! j) = snd (hs ! k)
                  \<longrightarrow> fst (hs ! k) \<le> fst (hs ! j)) [0..<length hs]"

text \<open>
  One round of the loop of \<open>bestFit\<close> on the pair \<open>bestFitHole\<close>, and what holds of that
  pair after the holes \<open>xs\<close> have been looked at.
\<close>

definition bestFit_step :: "int \<Rightarrow> int \<times> int \<Rightarrow> u16 \<times> u16 \<Rightarrow> int \<times> int" where
  "bestFit_step sz best h =
     (if uint (snd h) < snd best \<and> uint (snd h) \<ge> sz then (uint (fst h), uint (snd h)) else best)"

definition bestFit_inv :: "int \<Rightarrow> (u16 \<times> u16) list \<Rightarrow> int \<times> int \<Rightarrow> bool" where
  "bestFit_inv sz xs best =
     (if list_ex (fits sz) xs
      then (\<exists>k. best = (uint (fst (xs ! k)), uint (snd (xs ! k))) \<and> first_smallest sz xs k)
      else best = (-1, 65536))"

text \<open>
  The text format of the dump: the holes as \<open>[start, length]\<close>, separated by \<open>" - "\<close>.
\<close>

definition hole_text :: "u32 \<times> u32 \<Rightarrow> string" where
  "hole_text h = ''['' @ to_string (unat (fst h)) @ '', '' @ to_string (unat (snd h)) @ '']''"

fun joined :: "string \<Rightarrow> string list \<Rightarrow> string" where
  "joined sep [] = []"
| "joined sep [x] = x"
| "joined sep (x # y # ys) = x @ sep @ joined sep (y # ys)"

section \<open>The manager on concrete call sequences\<close>

text \<open>
  Scenario A of the specification, with words of 4 bytes: after \<open>initialize(10)\<close>, a
  request for 4 words gives the partition \<open>(0, 4)\<close> and leaves the hole \<open>(4, 6)\<close>; a
  request for 2 words then gives the partition \<open>(4, 2)\<close> and leaves the hole \<open>(6, 4)\<close>.
\<close>

lemma scenario_A:
  "outcome (run (initialize (MemoryManager 4 bestFit 0) 10) [] [Allocate 16])
     = Inr ([(4, 6)], [(0, 4)], [1,1,1,1,0,0,0,0,0,0,0,0,0,0,0,0], [MemoryAt 0])
   \<and> outcome (run (initialize (MemoryManager 4 bestFit 0) 10) [] [Allocate 16, Allocate 8])
     = Inr ([(6, 4)], [(0, 4), (4, 2)], [1,1,1,1,1,1,0,0,0,0,0,0,0,0,0,0], [MemoryAt 0, MemoryAt 16])"
  by code_simp

text \<open>
  The exported hole list and bitmap after the two allocations of Scenario A: one hole
  \<open>(6, 4)\<close>, and two bytes of bitmap with the six lowest bits of the first one set.
\<close>

lemma scenario_A_exports:
  "map_sum id (getList \<circ> fst)
       (run (initialize (MemoryManager 4 bestFit 0) 10) [] [Allocate 16, Allocate 8])
     = Inr (Some [1, 6, 4])
   \<and> map_sum id (getBitmap \<circ> fst)
       (run (initialize (MemoryManager 4 bestFit 0) 10) [] [Allocate 16, Allocate 8])
     = Inr (Some (Some [2, 0, 63, 0]))"
  by code_simp

text \<open>
  Claim C1 says that \<open>allocate\<close> converts the request to \<open>ceil(sizeInBytes / wordSize)\<close>
  words. The source divides two unsigned integers before it calls \<open>ceil\<close>, so the
  quotient is already rounded down: with words of 4 bytes, \<open>allocate(5)\<close> records the
  partition \<open>(0, 1)\<close> and sets one bit of the bitmap, one word of 4 bytes for a request of
  5 bytes, where the rounded-up quotient is 2.
\<close>

theorem allocate_truncates_words:
  "outcome (run (initialize (MemoryManager 4 bestFit 0) 10) [] [Allocate 5])
     = Inr ([(1, 9)], [(0, 1)], [1,0,0,0,0,0,0,0,0,0,0,0,0,0,0,0], [MemoryAt 0])
   \<and> words_needed 5 4 = 2"
  by code_simp

text \<open>
  Claim C2 says that \<open>free\<close> on an address that matches no live partition changes
  nothing, the second of two calls on the same address included. With words of 4 bytes
  and a pool of 10 words: two allocations of 4 and 6 words, then both are freed, which
  leaves the single hole \<open>(0, 10)\<close>. Freeing the second pointer once more finds no
  partition, keeps the length 0, and still pushes the candidate \<open>(4, 0)\<close> into the holes.
\<close>

theorem free_twice_adds_hole:
  "outcome (run (initialize (MemoryManager 4 bestFit 0) 10) []
        [Allocate 16, Allocate 24, FreeReturned 0, FreeReturned 1])
     = Inr ([(0, 10)], [], [0,0,0,0,0,0,0,0,0,0,0,0,0,0,0,0], [MemoryAt 0, MemoryAt 16])
   \<and> outcome (run (initialize (MemoryManager 4 bestFit 0) 10) []
        [Allocate 16, Allocate 24, FreeReturned 0, FreeReturned 1, FreeReturned 1])
     = Inr ([(0, 10), (4, 0)], [], [0,0,0,0,0,0,0,0,0,0,0,0,0,0,0,0], [MemoryAt 0, MemoryAt 16])"
  by code_simp

text \<open>
  Claim C3 says that after every \<open>free\<close> no two holes satisfy
  \<open>start_i + length_i = start_j\<close>. In a pool of 8 words of 1 byte, five allocations of
  one word are made and the pointers 0 and 2 freed. Freeing pointer 1 then merges on
  both sides: the source erases the left hole first and then erases at the index the
  right hole had before, which removes the hole \<open>(5, 3)\<close> behind it and keeps the right
  neighbour \<open>(2, 1)\<close>. Three calls later, each with a pointer that \<open>allocate\<close> returned and
  that is live, \<open>free\<close> returns with the holes \<open>(0, 3)\<close> and \<open>(3, 2)\<close>.
\<close>

theorem free_leaves_adjacent_holes:
  "outcome (run (initialize (MemoryManager 1 bestFit 0) 8) []
        [Allocate 1, Allocate 1, Allocate 1, Allocate 1, Allocate 1,
         FreeReturned 0, FreeReturned 2, FreeReturned 1, FreeReturned 3,
         Allocate 1, FreeReturned 4])
     = Inr ([(0, 3), (3, 2)], [(2, 1)], [0,0,1,0,0,0,0,0],
            [MemoryAt 0, MemoryAt 1, MemoryAt 2, MemoryAt 3, MemoryAt 4, MemoryAt 2])
   \<and> adjacent_holes [(0, 3), (3, 2)]"
  by code_simp

text \<open>
  Claim C4 says that holes and partitions tile \<open>[0, wordCount)\<close> in every state reached
  by calls of \<open>allocate\<close> and \<open>free\<close>. In a pool of 8 words of 1 byte, after four
  allocations of one word and the release of the first and the third, the tiling holds.
  Releasing the second, which has a hole on both sides, leaves the holes \<open>(0, 3)\<close> and
  \<open>(2, 1)\<close> and the partition \<open>(3, 1)\<close>: word 2 lies in two holes and the words 4 to 7 in
  no extent.
\<close>

theorem free_breaks_tiling:
  "outcome (run (initialize (MemoryManager 1 bestFit 0) 8) []
        [Allocate 1, Allocate 1, Allocate 1, Allocate 1, FreeReturned 0, FreeReturned 2])
     = Inr ([(0, 1), (2, 1), (4, 4)], [(1, 1), (3, 1)], [0,1,0,1,0,0,0,0],
            [MemoryAt 0, MemoryAt 1, MemoryAt 2, MemoryAt 3])
   \<and> tiles 8 [(0, 1), (2, 1), (4, 4)] [(1, 1), (3, 1)]
   \<and> outcome (run (initialize (MemoryManager 1 bestFit 0) 8) []
        [Allocate 1, Allocate 1, Allocate 1, Allocate 1, FreeReturned 0, FreeReturned 2,
         FreeReturned 1])
     = Inr ([(0, 3), (2, 1)], [(3, 1)], [0,0,0,1,0,0,0,0],
            [MemoryAt 0, MemoryAt 1, MemoryAt 2, MemoryAt 3])
   \<and> \<not> tiles 8 [(0, 3), (2, 1)] [(3, 1)]"
  by code_simp

text \<open>
  Claim C5 says that bit \<open>i\<close> of the bitmap is 1 exactly when word \<open>i\<close> lies in a
  partition. From the state above, the overlapping holes \<open>(2, 1)\<close> and \<open>(0, 3)\<close> are both
  allocated, so two live partitions share word 2; freeing the one of three words clears
  bit 2 while the partition \<open>(2, 1)\<close> is still live.
\<close>

theorem free_breaks_bitmap:
  "outcome (run (initialize (MemoryManager 1 bestFit 0) 8) []
        [Allocate 1, Allocate 1, Allocate 1, Allocate 1, FreeReturned 0, FreeReturned 2,
         FreeReturned 1, Allocate 1, Allocate 3, FreeReturned 5])
     = Inr ([(0, 3)], [(2, 1), (3, 1)], [0,0,0,1,0,0,0,0],
            [MemoryAt 0, MemoryAt 1, MemoryAt 2, MemoryAt 3, MemoryAt 2, MemoryAt 0])
   \<and> \<not> bitmap_faithful 8 [(2, 1), (3, 1)] [0,0,0,1,0,0,0,0]"
  by code_simp

text \<open>
  Claim C6 says that \<open>allocate\<close> followed by \<open>free\<close> of the returned address restores the
  holes. With words of 4 bytes, \<open>allocate(3)\<close> is rounded down to 0 words and records the
  partition \<open>(0, 0)\<close>; the holes are \<open>(0, 10)\<close>. The next \<open>allocate(16)\<close> returns the same
  address, and \<open>free\<close> of it removes the empty partition, the first one that starts at
  offset 0: the holes become \<open>(0, 0)\<close> and \<open>(4, 6)\<close>, the partition \<open>(0, 4)\<close> stays and
  its bits stay set.
\<close>

theorem allocate_free_not_restoring:
  "outcome (run (initialize (MemoryManager 4 bestFit 0) 10) [] [Allocate 3])
     = Inr ([(0, 10)], [(0, 0)], [0,0,0,0,0,0,0,0,0,0,0,0,0,0,0,0], [MemoryAt 0])
   \<and> outcome (run (initialize (MemoryManager 4 bestFit 0) 10) []
        [Allocate 3, Allocate 16, FreeReturned 1])
     = Inr ([(0, 0), (4, 6)], [(0, 4)], [1,1,1,1,0,0,0,0,0,0,0,0,0,0,0,0],
            [MemoryAt 0, MemoryAt 0])"
  by code_simp

section \<open>bestFit\<close>

text \<open>The array of \<open>getList\<close> has the format above, with every value cut to 16 bits.\<close>

lemma getList_encode_holes:
  "memory_size s \<noteq> 0 \<Longrightarrow>
   getList s = Some (encode_holes (map (\<lambda>h. (ucast (fst h), ucast (snd h))) (holes s)))"
  by (simp add: getList_def encode_holes_def comp_def)

lemma first_smallest_iff:
  "first_smallest sz hs k =
     (k < length hs \<and> fits sz (hs ! k)
      \<and> (\<forall>j<length hs. fits sz (hs ! j) \<longrightarrow> snd (hs ! k) \<le> snd (hs ! j))
      \<and> (\<forall>j<k. fits sz (hs ! j) \<longrightarrow> snd (hs ! k) < snd (hs ! j)))"
  by (auto simp: first_smallest_def list_all_iff)

lemma flat_nth:
  "k < length hs \<Longrightarrow>
   concat (map (\<lambda>h. [fst h, snd h]) hs) ! (2 * k) = fst (hs ! k)
   \<and> concat (map (\<lambda>h. [fst h, snd h]) hs) ! Suc (2 * k) = snd (hs ! k)"
proof (induction hs arbitrary: k)
  case Nil
  then show ?case by simp
next
  case (Cons h hs)
  show ?case
  proof (cases k)
    case 0
    then show ?thesis by simp
  next
    case (Suc m)
    with Cons.prems have "m < length hs" by simp
    from Cons.IH [OF this] Suc show ?thesis by simp
  qed
qed

lemma flat_length: "length (concat (map (\<lambda>h. [fst h, snd h]) hs)) = 2 * length hs"
  by (induction hs) simp_all

lemma bestFit_loop_fold:
  "k \<le> length hs \<Longrightarrow>
   bestFit_loop sz (c # concat (map (\<lambda>h. [fst h, snd h]) hs)) (length hs * 2) (2 * k + 1) best
     = Some (fst (foldl (bestFit_step sz) best (drop k hs)))"
proof (induction "length hs - k" arbitrary: k best)
  case 0
  then have "k = length hs" by simp
  then show ?case by (simp add: bestFit_loop.simps)
next
  case (Suc m)
  then have k: "k < length hs" and m: "m = length hs - Suc k" by simp_all
  have step: "bestFit_loop sz (c # concat (map (\<lambda>h. [fst h, snd h]) hs)) (length hs * 2) (2 * Suc k + 1) b
     = Some (fst (foldl (bestFit_step sz) b (drop (Suc k) hs)))" for b
    using Suc.hyps(1) [of "Suc k" b] k m by simp
  have d: "drop k hs = hs ! k # drop (Suc k) hs"
    using k by (simp add: Cons_nth_drop_Suc)
  show ?case
    using k step flat_nth [OF k]
    by (subst bestFit_loop.simps) (simp add: d flat_length bestFit_step_def)
qed

lemma bestFit_fold:
  assumes "length hs < 65536"
  shows "bestFit sz (encode_holes hs) = Some (fst (foldl (bestFit_step sz) (-1, 65536) hs))"
proof -
  have "unat (of_nat (length hs) :: u16) = length hs"
    using assms by (simp add: unat_of_nat)
  then show ?thesis
    using bestFit_loop_fold [of 0 hs sz "of_nat (length hs)" "(-1, 65536)"]
    by (simp add: bestFit_def encode_holes_def)
qed

lemma first_smallest_keep:
  assumes "first_smallest sz xs k" and "\<not> (fits sz x \<and> snd x < snd (xs ! k))"
  shows "first_smallest sz (xs @ [x]) k"
proof -
  from assms(1) have k: "k < length xs" by (simp add: first_smallest_iff)
  have "fits sz ((xs @ [x]) ! j) \<longrightarrow> snd ((xs @ [x]) ! k) \<le> snd ((xs @ [x]) ! j)"
    if "j < length (xs @ [x])" for j
  proof (cases "j < length xs")
    case True
    with assms(1) k show ?thesis by (simp add: first_smallest_iff nth_append)
  next
    case False
    with that have "j = length xs" by simp
    with assms(2) k show ?thesis by (auto simp: nth_append)
  qed
  moreover have "fits sz ((xs @ [x]) ! j) \<longrightarrow> snd ((xs @ [x]) ! k) < snd ((xs @ [x]) ! j)"
    if "j < k" for j
    using that assms(1) k by (simp add: first_smallest_iff nth_append)
  ultimately show ?thesis
    using assms(1) k by (simp add: first_smallest_iff nth_append)
qed

lemma first_smallest_new:
  assumes "fits sz x"
    and "\<forall>j<length xs. fits sz (xs ! j) \<longrightarrow> snd x < snd (xs ! j)"
  shows "first_smallest sz (xs @ [x]) (length xs)"
  using assms by (auto simp: first_smallest_iff nth_append)

lemma bestFit_inv_step:
  assumes "bestFit_inv sz xs best"
  shows "bestFit_inv sz (xs @ [x]) (bestFit_step sz best x)"
proof (cases "list_ex (fits sz) xs")
  case False
  then have best: "best = (-1, 65536)" and none: "\<forall>j<length xs. \<not> fits sz (xs ! j)"
    using assms by (auto simp: bestFit_inv_def list_ex_length)
  have lt: "uint (snd x) < 65536" using uint_lt2p [of "snd x"] by simp
  show ?thesis
  proof (cases "fits sz x")
    case True
    then have "first_smallest sz (xs @ [x]) (length xs)"
      using none by (intro first_smallest_new) auto
    moreover have "bestFit_step sz best x = (uint (fst x), uint (snd x))"
      using True best lt by (simp add: bestFit_step_def fits_def)
    ultimately show ?thesis
      using True by (auto simp: bestFit_inv_def intro!: exI [of _ "length xs"])
  next
    case nofit: False
    then show ?thesis
      using False best by (simp add: bestFit_inv_def bestFit_step_def fits_def)
  qed
next
  case True
  then obtain k where best: "best = (uint (fst (xs ! k)), uint (snd (xs ! k)))"
    and fs: "first_smallest sz xs k"
    using assms by (auto simp: bestFit_inv_def)
  from fs have k: "k < length xs" by (simp add: first_smallest_iff)
  have ex: "list_ex (fits sz) (xs @ [x])" using True by simp
  show ?thesis
  proof (cases "fits sz x \<and> snd x < snd (xs ! k)")
    case new: True
    have "\<forall>j<length xs. fits sz (xs ! j) \<longrightarrow> snd x < snd (xs ! j)"
      using fs new by (auto simp: first_smallest_iff)
    with new have "first_smallest sz (xs @ [x]) (length xs)"
      by (intro first_smallest_new) auto
    moreover have "bestFit_step sz best x = (uint (fst x), uint (snd x))"
      using new best by (simp add: bestFit_step_def fits_def word_less_def)
    ultimately show ?thesis
      using ex by (auto simp: bestFit_inv_def intro!: exI [of _ "length xs"])
  next
    case old: False
    have "first_smallest sz (xs @ [x]) k"
      using fs old by (rule first_smallest_keep)
    moreover have "bestFit_step sz best x = best"
      using old best by (auto simp: bestFit_step_def fits_def word_less_def)
    ultimately show ?thesis
      using ex best k by (auto simp: bestFit_inv_def nth_append intro!: exI [of _ k])
  qed
qed

lemma bestFit_inv_foldl: "bestFit_inv sz hs (foldl (bestFit_step sz) (-1, 65536) hs)"
proof (induction hs rule: rev_induct)
  case Nil
  show ?case by (simp add: bestFit_inv_def)
next
  case (snoc x xs)
  then show ?case using bestFit_inv_step [of sz xs _ x] by simp
qed

lemma first_smallest_lowest_start:
  assumes "first_smallest sz hs k" and "sorted (map fst hs)"
    and "j < length hs" and "fits sz (hs ! j)" and "snd (hs ! j) = snd (hs ! k)"
  shows "fst (hs ! k) \<le> fst (hs ! j)"
proof -
  have "\<not> j < k" using assms(1,4,5) by (auto simp: first_smallest_iff)
  then have "k \<le> j" by simp
  then have "map fst hs ! k \<le> map fst hs ! j"
    using assms(2,3) by (intro sorted_nth_mono) auto
  then show ?thesis using assms(1,3) by (simp add: first_smallest_iff)
qed

text \<open>
  Claim C7: for every encoded hole list and every request, \<open>bestFit\<close> returns the
  offset of the hole with the smallest length among the holes that fit, the first such
  hole in the list, which on a list ascending by offset is the one with the lowest
  offset among the ties; it returns \<open>-1\<close> when no hole fits. Over the holes
  \<open>(0, 10), (20, 2), (30, 6)\<close> a request for 5 words selects 30 and a request for 2 words
  selects 20. The number of holes is below \<open>2^16\<close>, as the count field of the format
  requires.
\<close>

theorem bestFit_smallest_fitting:
  assumes "length hs < 65536"
  shows "(if list_ex (fits sizeInWords) hs
          then \<exists>k. bestFit sizeInWords (encode_holes hs) = Some (uint (fst (hs ! k)))
                 \<and> first_smallest sizeInWords hs k
                 \<and> (sorted (map fst hs) \<longrightarrow> lowest_start sizeInWords hs k)
          else bestFit sizeInWords (encode_holes hs) = Some (-1))
         \<and> bestFit 5 (encode_holes [(0, 10), (20, 2), (30, 6)]) = Some 30
         \<and> bestFit 2 (encode_holes [(0, 10), (20, 2), (30, 6)]) = Some 20"
proof -
  have a: "bestFit sizeInWords (encode_holes hs)
             = Some (fst (foldl (bestFit_step sizeInWords) (-1, 65536) hs))"
    using assms by (rule bestFit_fold)
  have inv: "bestFit_inv sizeInWords hs (foldl (bestFit_step sizeInWords) (-1, 65536) hs)"
    by (rule bestFit_inv_foldl)
  have general: "if list_ex (fits sizeInWords) hs
          then \<exists>k. bestFit sizeInWords (encode_holes hs) = Some (uint (fst (hs ! k)))
                 \<and> first_smallest sizeInWords hs k
                 \<and> (sorted (map fst hs) \<longrightarrow> lowest_start sizeInWords hs k)
          else bestFit sizeInWords (encode_holes hs) = Some (-1)"
  proof (cases "list_ex (fits sizeInWords) hs")
    case True
    then obtain k where k: "foldl (bestFit_step sizeInWords) (-1, 65536) hs
          = (uint (fst (hs ! k)), uint (snd (hs ! k)))" "first_smallest sizeInWords hs k"
      using inv by (auto simp: bestFit_inv_def)
    have "sorted (map fst hs) \<longrightarrow> lowest_start sizeInWords hs k"
      using first_smallest_lowest_start [OF k(2)] by (auto simp: lowest_start_def list_all_iff)
    with k a True show ?thesis by auto
  next
    case False
    with inv a show ?thesis by (simp add: bestFit_inv_def)
  qed
  have b: "bestFit 5 (encode_holes [(0, 10), (20, 2), (30, 6)]) = Some 30"
    by code_simp
  have c: "bestFit 2 (encode_holes [(0, 10), (20, 2), (30, 6)]) = Some 20"
    by code_simp
  from general b c show ?thesis by simp
qed

theorem bestFit_smallest_fitting_witness:
  "length [(0, 10), (20, 2), (30, 6) :: u16 \<times> u16] < 65536
   \<and> list_ex (fits 5) [(0, 10), (20, 2), (30, 6)]
   \<and> sorted (map fst [(0, 10), (20, 2), (30, 6) :: u16 \<times> u16])
   \<and> bestFit 5 (encode_holes [(0, 10), (20, 2), (30, 6)]) = Some 30
   \<and> first_smallest 5 [(0, 10), (20, 2), (30, 6)] 2
   \<and> lowest_start 5 [(0, 10), (20, 2), (30, 6)] 2"
proof -
  have len: "length [(0, 10), (20, 2), (30, 6) :: u16 \<times> u16] < 65536" by simp
  have ex: "list_ex (fits 5) [(0, 10), (20, 2), (30, 6)]" by (simp add: fits_def)
  have so: "sorted (map fst [(0, 10), (20, 2), (30, 6) :: u16 \<times> u16])" by simp
  from bestFit_smallest_fitting [OF len, of 5] ex so
  obtain k where k: "bestFit 5 (encode_holes [(0, 10), (20, 2), (30, 6)])
        = Some (uint (fst ([(0, 10), (20, 2), (30, 6) :: u16 \<times> u16] ! k)))"
      "first_smallest 5 [(0, 10), (20, 2), (30, 6)] k"
      "lowest_start 5 [(0, 10), (20, 2), (30, 6)] k"
    by auto
  have "\<not> first_smallest 5 [(0, 10), (20, 2), (30, 6)] 0"
    and "\<not> first_smallest 5 [(0, 10), (20, 2), (30, 6)] 1"
    by code_simp+
  moreover from k(2) have "k < 3" by (simp add: first_smallest_iff)
  ultimately have "k = 2"
    using k(2) by (cases "k = 0"; cases "k = 1") auto
  with k len ex so show ?thesis by simp
qed

section \<open>Validation in allocate\<close>

text \<open>
  The validation of \<open>allocate\<close> returns the null pointer and changes nothing whenever the
  buffer is empty (the pool is not initialised) or the request exceeds
  \<open>memSize * wordSize\<close> bytes. The request is unsigned, so it is never negative.
\<close>

lemma allocate_rejects_invalid:
  "memory_size s = 0 \<or> sizeInBytes > memSize s * unat (wordSize s)
   \<Longrightarrow> allocate s sizeInBytes = Inr (nullptr, s)"
  by (auto simp: allocate_def)

lemma allocate_rejects_invalid_witness:
  "memory_size (MemoryManager 4 bestFit 0) = 0
   \<and> allocate (MemoryManager 4 bestFit 0) 8 = Inr (nullptr, MemoryManager 4 bestFit 0)
   \<and> 41 > memSize (initialize (MemoryManager 4 bestFit 0) 10)
            * unat (wordSize (initialize (MemoryManager 4 bestFit 0) 10))
   \<and> allocate (initialize (MemoryManager 4 bestFit 0) 10) 41
       = Inr (nullptr, initialize (MemoryManager 4 bestFit 0) 10)"
proof -
  have a: "memory_size (MemoryManager 4 bestFit 0) = 0"
    by (simp add: MemoryManager_def)
  have b: "41 > memSize (initialize (MemoryManager 4 bestFit 0) 10)
            * unat (wordSize (initialize (MemoryManager 4 bestFit 0) 10))"
    by (simp add: MemoryManager_def initialize_def shutdown_def)
  from a b allocate_rejects_invalid [of "MemoryManager 4 bestFit 0" 8]
    allocate_rejects_invalid [of "initialize (MemoryManager 4 bestFit 0) 10" 41]
  show ?thesis by simp
qed

text \<open>
  Claim C8 says that \<open>allocate\<close> returns the null pointer and changes nothing whenever
  the pool is not initialised, the request is not positive, or the request exceeds the
  capacity. The only sign test of the source, \<open>sizeInBytes < 0\<close> on an unsigned value,
  never holds, and nothing rejects a request of 0 bytes: on an initialised pool of 10
  words of 4 bytes, \<open>allocate(0)\<close> returns the address of word 0 and records the
  partition \<open>(0, 0)\<close>. The next \<open>allocate(16)\<close> returns the same address, and \<open>free\<close> of
  it removes the empty partition, so the partition \<open>(0, 4)\<close> stays live with its bits
  set and the holes become \<open>(0, 0)\<close> and \<open>(4, 6)\<close>.
\<close>

theorem allocate_zero_accepted:
  "outcome (run (initialize (MemoryManager 4 bestFit 0) 10) [] [Allocate 0])
     = Inr ([(0, 10)], [(0, 0)], [0,0,0,0,0,0,0,0,0,0,0,0,0,0,0,0], [MemoryAt 0])
   \<and> outcome (run (initialize (MemoryManager 4 bestFit 0) 10) []
        [Allocate 0, Allocate 16, FreeReturned 1])
     = Inr ([(0, 0), (4, 6)], [(0, 4)], [1,1,1,1,0,0,0,0,0,0,0,0,0,0,0,0],
            [MemoryAt 0, MemoryAt 0])"
  by code_simp

section \<open>dumpMemoryMap\<close>

lemma hole_piece_text:
  "hole_piece h '']'' = hole_text h" "hole_piece h ''] - '' = hole_text h @ '' - ''"
  by (simp_all add: hole_piece_def hole_text_def)

lemma dump_pieces_joined:
  "hs \<noteq> [] \<Longrightarrow>
   concat (map (\<lambda>h. hole_piece h ''] - '') (take (length hs - 1) hs))
     @ hole_piece (hs ! (length hs - 1)) '']''
   = joined '' - '' (map hole_text hs)"
proof (induction hs)
  case Nil
  then show ?case by simp
next
  case (Cons h hs)
  show ?case
  proof (cases hs)
    case Nil
    then show ?thesis by (simp add: hole_piece_text)
  next
    case (Cons g gs)
    with Cons.IH have "concat (map (\<lambda>h. hole_piece h ''] - '') (take (length hs - 1) hs))
        @ hole_piece (hs ! (length hs - 1)) '']'' = joined '' - '' (map hole_text hs)"
      by simp
    with Cons show ?thesis by (simp add: hole_piece_text)
  qed
qed

text \<open>
  Claim C9, amended: \<open>dumpMemoryMap\<close> returns \<open>-1\<close> and writes nothing when the pool is
  not initialised or the file cannot be opened. On an initialised pool whose file was
  opened it returns 0 and writes the holes, in the order of the hole list, as
  \<open>[start, length] - [start, length] - ...\<close>; when there is no hole it writes exactly
  \<open>[0, 0]\<close>.
\<close>

theorem dumpMemoryMap_format:
  "(memory_size s = 0 \<or> fd = -1 \<longrightarrow> dumpMemoryMap s fd = (-1, []))
   \<and> (memory_size s \<noteq> 0 \<and> fd \<noteq> -1 \<longrightarrow>
        dumpMemoryMap s fd
          = (0, if holes s = [] then ''[0, 0]'' else joined '' - '' (map hole_text (holes s))))"
  using dump_pieces_joined [of "holes s"] by (simp add: dumpMemoryMap_def)

theorem dumpMemoryMap_format_witness:
  "dumpMemoryMap (MemoryManager 4 bestFit 0) 3 = (-1, [])
   \<and> dumpMemoryMap ((initialize (MemoryManager 4 bestFit 0) 30)\<lparr>holes := []\<rparr>) 3 = (0, ''[0, 0]'')
   \<and> dumpMemoryMap ((initialize (MemoryManager 4 bestFit 0) 30)
                       \<lparr>holes := [(0, 10), (12, 2), (20, 6)]\<rparr>) 3
       = (0, ''[0, 10] - [12, 2] - [20, 6]'')"
proof -
  have t: "joined '' - '' (map hole_text [(0, 10), (12, 2), (20, 6)]) = ''[0, 10] - [12, 2] - [20, 6]''"
    by code_simp
  have m: "memory_size (MemoryManager 4 bestFit 0) = 0"
    "memory_size ((initialize (MemoryManager 4 bestFit 0) 30)\<lparr>holes := hs\<rparr>) \<noteq> 0" for hs
    by (simp_all add: MemoryManager_def initialize_def shutdown_def)
  from dumpMemoryMap_format [of "MemoryManager 4 bestFit 0" 3]
    dumpMemoryMap_format [of "(initialize (MemoryManager 4 bestFit 0) 30)\<lparr>holes := []\<rparr>" 3]
    dumpMemoryMap_format [of "(initialize (MemoryManager 4 bestFit 0) 30)
                       \<lparr>holes := [(0, 10), (12, 2), (20, 6)]\<rparr>" 3]
    m t
  show ?thesis by simp
qed

text \<open>
  On an initialised pool of 40 bytes, \<open>dumpMemoryMap\<close> returns \<open>-1\<close> when \<open>open\<close> has
  failed.
\<close>

theorem dumpMemoryMap_open_fails:
  "memory_size (initialize (MemoryManager 4 bestFit 0) 10) = 40
   \<and> dumpMemoryMap (initialize (MemoryManager 4 bestFit 0) 10) (-1) = (-1, [])"
  by (simp add: dumpMemoryMap_def MemoryManager_def initialize_def shutdown_def)

section \<open>initialize(0)\<close>

text \<open>
  Claim C10: after \<open>initialize(0)\<close>, whatever the state before, the buffer has no bytes
  and the hole \<open>(0, 0)\<close> is in the hole list; \<open>allocate\<close> returns the null pointer for
  every request and changes nothing, \<open>getList\<close> and \<open>getBitmap\<close> return the null pointer,
  and \<open>dumpMemoryMap\<close> returns \<open>-1\<close>.
\<close>

theorem initialize_zero_uninitialized:
  "memory_size (initialize s 0) = 0
   \<and> holes (initialize s 0) = [(0, 0)]
   \<and> allocate (initialize s 0) sizeInBytes = Inr (nullptr, initialize s 0)
   \<and> getList (initialize s 0) = None
   \<and> getBitmap (initialize s 0) = None
   \<and> dumpMemoryMap (initialize s 0) fd = (-1, [])"
proof -
  have m: "memory_size (initialize s 0) = 0"
    by (simp add: initialize_def shutdown_def)
  have h: "holes (initialize s 0) = [(0, 0)]"
    by (simp add: initialize_def shutdown_def)
  from m h show ?thesis
    by (simp add: allocate_def getList_def getBitmap_def dumpMemoryMap_def)
qed

end
